theory Spec2Isabelle
  imports Complex_Main "HOL-Library.AList"
begin

section \<open>JavaScript values used by the road network code\<close>

text \<open>
  The numeric quantities of \<^verbatim>\<open>ROAD_NETWORK_CODE.js\<close> (edge lengths, walking times, tentative
  distances, queue priorities, the time budget) are JavaScript numbers, and two places read a
  value that may be \<^verbatim>\<open>undefined\<close> (a property an object does not have, \<^verbatim>\<open>Map.get\<close> on a missing
  key) or \<^verbatim>\<open>null\<close> (a non-finite number after a JSON round trip). Finite numbers are taken as
  reals: rounding of IEEE doubles and the sign of zero are not modelled.
\<close>

datatype jsval = Undefined | Null | NaN | NegInfinity | Number real | Infinity

text \<open>\<^verbatim>\<open>ToNumber\<close>: \<^verbatim>\<open>undefined\<close> reads as \<^verbatim>\<open>NaN\<close>, \<^verbatim>\<open>null\<close> as 0.\<close>

fun to_number :: "jsval \<Rightarrow> jsval" where
  "to_number Undefined = NaN"
| "to_number Null = Number 0"
| "to_number v = v"

text \<open>Addition of two values that \<^verbatim>\<open>ToNumber\<close> has already been applied to.\<close>

fun num_add :: "jsval \<Rightarrow> jsval \<Rightarrow> jsval" where
  "num_add (Number x) (Number y) = Number (x + y)"
| "num_add (Number x) Infinity = Infinity"
| "num_add (Number x) NegInfinity = NegInfinity"
| "num_add Infinity (Number y) = Infinity"
| "num_add Infinity Infinity = Infinity"
| "num_add NegInfinity (Number y) = NegInfinity"
| "num_add NegInfinity NegInfinity = NegInfinity"
| "num_add _ _ = NaN"

fun num_neg :: "jsval \<Rightarrow> jsval" where
  "num_neg (Number x) = Number (- x)"
| "num_neg Infinity = NegInfinity"
| "num_neg NegInfinity = Infinity"
| "num_neg _ = NaN"

fun num_less :: "jsval \<Rightarrow> jsval \<Rightarrow> bool" where
  "num_less (Number x) (Number y) = (x < y)"
| "num_less (Number x) Infinity = True"
| "num_less NegInfinity (Number y) = True"
| "num_less NegInfinity Infinity = True"
| "num_less _ _ = False"

fun num_le :: "jsval \<Rightarrow> jsval \<Rightarrow> bool" where
  "num_le (Number x) (Number y) = (x \<le> y)"
| "num_le (Number x) Infinity = True"
| "num_le NegInfinity (Number y) = True"
| "num_le NegInfinity Infinity = True"
| "num_le NegInfinity NegInfinity = True"
| "num_le Infinity Infinity = True"
| "num_le _ _ = False"

text \<open>The operators \<^verbatim>\<open>a + b\<close>, \<^verbatim>\<open>a - b\<close>, \<^verbatim>\<open>a < b\<close>, \<^verbatim>\<open>a <= b\<close>, \<^verbatim>\<open>a > b\<close> on these values.\<close>

definition js_add :: "jsval \<Rightarrow> jsval \<Rightarrow> jsval" where
  "js_add a b = num_add (to_number a) (to_number b)"

definition js_sub :: "jsval \<Rightarrow> jsval \<Rightarrow> jsval" where
  "js_sub a b = num_add (to_number a) (num_neg (to_number b))"

definition js_lt :: "jsval \<Rightarrow> jsval \<Rightarrow> bool" where
  "js_lt a b = num_less (to_number a) (to_number b)"

definition js_le :: "jsval \<Rightarrow> jsval \<Rightarrow> bool" where
  "js_le a b = num_le (to_number a) (to_number b)"

definition js_gt :: "jsval \<Rightarrow> jsval \<Rightarrow> bool" where
  "js_gt a b = num_less (to_number b) (to_number a)"

text \<open>Truthiness, as \<^verbatim>\<open>&&\<close>, \<^verbatim>\<open>||\<close>, \<^verbatim>\<open>!\<close> and \<^verbatim>\<open>filter\<close> read a value.\<close>

fun truthy :: "jsval \<Rightarrow> bool" where
  "truthy Undefined = False"
| "truthy Null = False"
| "truthy NaN = False"
| "truthy (Number x) = (x \<noteq> 0)"
| "truthy _ = True"

text \<open>
  What runs into an exception. Only \<^verbatim>\<open>TypeError\<close> is ever raised by the code (a method called
  on \<^verbatim>\<open>undefined\<close>, a non-iterable handed to \<^verbatim>\<open>new Set\<close>, a method an object does not have);
  the other four are the error kinds the specification names, which no code path raises.
\<close>

datatype error = TypeError | EdgeEndpointMissing | SelfLoop | OriginNotFound | FormatError

text \<open>
  A method that mutates \<^verbatim>\<open>this\<close> either returns, leaving the object in the state \<open>Done\<close>
  carries, or throws, and then \<open>Thrown\<close> carries the state the object was left in.
\<close>

datatype 's outcome = Done 's | Thrown error 's

section \<open>Map and Set\<close>

text \<open>
  A JavaScript \<^verbatim>\<open>Map\<close> keeps its entries in insertion order, and \<^verbatim>\<open>set\<close> on a key that is
  present replaces the value where it stands: an association list with \<open>AList.update\<close>.
  A \<^verbatim>\<open>Set\<close> of strings is a list without repetition, in insertion order.
\<close>

abbreviation Map_get :: "('k \<times> 'v) list \<Rightarrow> 'k \<Rightarrow> 'v option" where
  "Map_get m k \<equiv> map_of m k"

abbreviation Map_set :: "'k \<Rightarrow> 'v \<Rightarrow> ('k \<times> 'v) list \<Rightarrow> ('k \<times> 'v) list" where
  "Map_set k v m \<equiv> AList.update k v m"

abbreviation Map_delete :: "'k \<Rightarrow> ('k \<times> 'v) list \<Rightarrow> ('k \<times> 'v) list" where
  "Map_delete k m \<equiv> AList.delete k m"

abbreviation Map_values :: "('k \<times> 'v) list \<Rightarrow> 'v list" where
  "Map_values m \<equiv> map snd m"

definition Set_add :: "'a \<Rightarrow> 'a list \<Rightarrow> 'a list" where
  "Set_add x s = (if x \<in> set s then s else s @ [x])"

abbreviation Set_delete :: "'a \<Rightarrow> 'a list \<Rightarrow> 'a list" where
  "Set_delete x s \<equiv> removeAll x s"

text \<open>\<^verbatim>\<open>new Set(array)\<close>: the elements in order, each kept where it first occurs.\<close>

definition Set_of :: "'a list \<Rightarrow> 'a list" where
  "Set_of xs = foldl (\<lambda>s x. Set_add x s) [] xs"

section \<open>RoadNode, RoadEdge, RoadNetwork\<close>

text \<open>
  The network code only stores the coordinates of a node, so their type is a parameter \<open>'c\<close>.
\<close>

record 'c RoadNode =
  id_node :: string
  lng :: 'c
  lat :: 'c
  connections :: "string list"
  isBoundary :: bool

definition new_RoadNode :: "string \<Rightarrow> 'c \<Rightarrow> 'c \<Rightarrow> 'c RoadNode" where
  "new_RoadNode i x y =
     \<lparr>id_node = i, lng = x, lat = y, connections = [], isBoundary = False\<rparr>"

record RoadEdge =
  from_e :: string
  to_e :: string
  length_e :: jsval
  time_e :: jsval

text \<open>
  \<^verbatim>\<open>length / 83.33 * 60\<close>: a finite length is scaled, an infinite one or \<^verbatim>\<open>NaN\<close> stays what it is.
\<close>

definition walk_time :: "jsval \<Rightarrow> jsval" where
  "walk_time len = (case to_number len of Number l \<Rightarrow> Number (l / 83.33 * 60) | v \<Rightarrow> v)"

definition new_RoadEdge :: "string \<Rightarrow> string \<Rightarrow> jsval \<Rightarrow> RoadEdge" where
  "new_RoadEdge a b len = \<lparr>from_e = a, to_e = b, length_e = len, time_e = walk_time len\<rparr>"

text \<open>
  \<open>nextNodeId\<close> holds a whole number, or \<^verbatim>\<open>NaN\<close> (\<open>None\<close>) once an id without a numeric suffix has
  been imported. The model counts in exact integers; the counter of the code is a double,
  which stops being exact at \<open>2 ^ 53\<close>.
\<close>

record 'c RoadNetwork =
  nodes :: "(string \<times> 'c RoadNode) list"
  edges :: "(string \<times> RoadEdge) list"
  adjList :: "(string \<times> string list) list"
  nextNodeId :: "int option"

definition new_RoadNetwork :: "'c RoadNetwork" where
  "new_RoadNetwork = \<lparr>nodes = [], edges = [], adjList = [], nextNodeId = Some 1\<rparr>"

subsection \<open>Numbers as text\<close>

fun digits :: "nat \<Rightarrow> string" where
  "digits n = (if n < 10 then [''0123456789'' ! n]
               else digits (n div 10) @ [''0123456789'' ! (n mod 10)])"

declare digits.simps [simp del]

text \<open>
  What \<^verbatim>\<open>'n_' + this.nextNodeId\<close> appends for the counter: its decimal digits. (From \<open>10 ^ 21\<close>
  on JavaScript prints a number in exponent form, which is not modelled.)
\<close>

definition number_string :: "int option \<Rightarrow> string" where
  "number_string v = (case v of None \<Rightarrow> ''NaN''
     | Some i \<Rightarrow> (if i < 0 then ''-'' @ digits (nat (- i)) else digits (nat i)))"

definition incr :: "int option \<Rightarrow> int option" where
  "incr v = map_option (\<lambda>i. i + 1) v"

subsection \<open>The operations of RoadNetwork\<close>

definition edgeId :: "string \<Rightarrow> string \<Rightarrow> string" where
  "edgeId fromId toId = fromId @ ''-'' @ toId"

definition addNode :: "'c RoadNetwork \<Rightarrow> 'c \<Rightarrow> 'c \<Rightarrow> 'c RoadNode \<times> 'c RoadNetwork" where
  "addNode net x y =
     (let i = ''n_'' @ number_string (nextNodeId net);
          node = new_RoadNode i x y
      in (node, net\<lparr>nodes := Map_set i node (nodes net),
                     adjList := Map_set i [] (adjList net),
                     nextNodeId := incr (nextNodeId net)\<rparr>))"

text \<open>
  \<^verbatim>\<open>if (this.adjList.has(k)) this.adjList.get(k).delete(y)\<close> and
  \<^verbatim>\<open>if (this.nodes.has(k)) this.nodes.get(k).connections.delete(y)\<close>.
\<close>

definition adj_delete ::
  "(string \<times> string list) list \<Rightarrow> string \<Rightarrow> string \<Rightarrow> (string \<times> string list) list" where
  "adj_delete m k y =
     (case Map_get m k of None \<Rightarrow> m | Some s \<Rightarrow> Map_set k (Set_delete y s) m)"

definition conn_delete ::
  "(string \<times> 'c RoadNode) list \<Rightarrow> string \<Rightarrow> string \<Rightarrow> (string \<times> 'c RoadNode) list" where
  "conn_delete m k y =
     (case Map_get m k of None \<Rightarrow> m
      | Some n \<Rightarrow> Map_set k (n\<lparr>connections := Set_delete y (connections n)\<rparr>) m)"

text \<open>
  \<open>removeEdge\<close> deletes both directional keys, then the adjacency entries and the connection
  entries of whichever endpoints exist. It cannot throw.
\<close>

definition removeEdge :: "'c RoadNetwork \<Rightarrow> string \<Rightarrow> string \<Rightarrow> 'c RoadNetwork" where
  "removeEdge net fromId toId =
     net\<lparr>edges := Map_delete (edgeId toId fromId)
                     (Map_delete (edgeId fromId toId) (edges net)),
         adjList := adj_delete (adj_delete (adjList net) fromId toId) toId fromId,
         nodes := conn_delete (conn_delete (nodes net) fromId toId) toId fromId\<rparr>"

text \<open>
  \<open>removeNode\<close> walks the connection set of the node and removes each edge. The callback
  deletes from that very set only the element being visited, which leaves the elements still
  to be visited in place, so the walk is a fold over the set as it was on entry.
\<close>

definition removeNode :: "'c RoadNetwork \<Rightarrow> string \<Rightarrow> 'c RoadNetwork" where
  "removeNode net i =
     (case Map_get (nodes net) i of None \<Rightarrow> net
      | Some node \<Rightarrow>
          (let net1 = foldl (\<lambda>s neighborId. removeEdge s i neighborId) net (connections node)
           in net1\<lparr>nodes := Map_delete i (nodes net1),
                    adjList := Map_delete i (adjList net1)\<rparr>))"

text \<open>
  \<open>addEdge\<close> stores the edge first and then updates the two connection sets and the two
  adjacency sets; each of the four reads throws \<^verbatim>\<open>TypeError\<close> when the entry is missing
  (\<^verbatim>\<open>undefined.connections\<close>, \<^verbatim>\<open>undefined.add\<close>), with the earlier writes already made.
\<close>

definition addEdge :: "'c RoadNetwork \<Rightarrow> string \<Rightarrow> string \<Rightarrow> jsval \<Rightarrow> 'c RoadNetwork outcome" where
  "addEdge net fromId toId len =
     (let net1 = net\<lparr>edges := Map_set (edgeId fromId toId) (new_RoadEdge fromId toId len) (edges net)\<rparr>
      in case Map_get (nodes net1) fromId of None \<Rightarrow> Thrown TypeError net1
       | Some nf \<Rightarrow>
      (let net2 = net1\<lparr>nodes := Map_set fromId
                    (nf\<lparr>connections := Set_add toId (connections nf)\<rparr>) (nodes net1)\<rparr>
       in case Map_get (nodes net2) toId of None \<Rightarrow> Thrown TypeError net2
        | Some nt \<Rightarrow>
       (let net3 = net2\<lparr>nodes := Map_set toId
                     (nt\<lparr>connections := Set_add fromId (connections nt)\<rparr>) (nodes net2)\<rparr>
        in case Map_get (adjList net3) fromId of None \<Rightarrow> Thrown TypeError net3
         | Some af \<Rightarrow>
        (let net4 = net3\<lparr>adjList := Map_set fromId (Set_add toId af) (adjList net3)\<rparr>
         in case Map_get (adjList net4) toId of None \<Rightarrow> Thrown TypeError net4
          | Some ato \<Rightarrow>
            Done (net4\<lparr>adjList := Map_set toId (Set_add fromId ato) (adjList net4)\<rparr>)))))"

text \<open>
  The two kinds of update \<open>addEdge\<close> makes when all four entries exist, as counterparts of
  \<open>adj_delete\<close> and \<open>conn_delete\<close>.
\<close>

definition adj_add ::
  "(string \<times> string list) list \<Rightarrow> string \<Rightarrow> string \<Rightarrow> (string \<times> string list) list" where
  "adj_add m k y =
     (case Map_get m k of None \<Rightarrow> m | Some s \<Rightarrow> Map_set k (Set_add y s) m)"

definition conn_add ::
  "(string \<times> 'c RoadNode) list \<Rightarrow> string \<Rightarrow> string \<Rightarrow> (string \<times> 'c RoadNode) list" where
  "conn_add m k y =
     (case Map_get m k of None \<Rightarrow> m
      | Some n \<Rightarrow> Map_set k (n\<lparr>connections := Set_add y (connections n)\<rparr>) m)"

definition getNode :: "'c RoadNetwork \<Rightarrow> string \<Rightarrow> 'c RoadNode option" where
  "getNode net i = Map_get (nodes net) i"

definition getAllNodes :: "'c RoadNetwork \<Rightarrow> 'c RoadNode list" where
  "getAllNodes net = Map_values (nodes net)"

definition getAllEdges :: "'c RoadNetwork \<Rightarrow> RoadEdge list" where
  "getAllEdges net = Map_values (edges net)"

section \<open>PriorityQueue\<close>

record queue_item =
  node_q :: string
  priority :: jsval

text \<open>
  \<^verbatim>\<open>items.sort((a, b) => a.priority - b.priority)\<close>: the sort is stable, and an element moves
  behind another only where the comparator is positive (a \<^verbatim>\<open>NaN\<close> difference counts as zero).
  With a \<^verbatim>\<open>NaN\<close> priority in the queue the comparator is not an order and the result of
  \<^verbatim>\<open>Array.prototype.sort\<close> is left to the implementation; the insertion sort below is then one
  possible outcome only.
\<close>

fun insert_item :: "queue_item \<Rightarrow> queue_item list \<Rightarrow> queue_item list" where
  "insert_item x [] = [x]"
| "insert_item x (y # ys) =
     (if js_gt (js_sub (priority x) (priority y)) (Number 0)
      then y # insert_item x ys else x # y # ys)"

definition sort_items :: "queue_item list \<Rightarrow> queue_item list" where
  "sort_items xs = foldr insert_item xs []"

definition enqueue :: "queue_item list \<Rightarrow> string \<Rightarrow> jsval \<Rightarrow> queue_item list" where
  "enqueue items n p = sort_items (items @ [\<lparr>node_q = n, priority = p\<rparr>])"

section \<open>DijkstraSearch\<close>

record search_state =
  distances :: "(string \<times> jsval) list"
  previous :: "(string \<times> string) list"
  visited :: "string list"
  pq :: "queue_item list"

record 'c reachable_node =
  nodeId :: string
  node :: "'c RoadNode option"
  distance :: jsval

record 'c search_result =
  distances_r :: "(string \<times> jsval) list"
  previous_r :: "(string \<times> string) list"
  reachableNodes :: "'c reachable_node list"

definition findEdge :: "'c RoadNetwork \<Rightarrow> string \<Rightarrow> string \<Rightarrow> RoadEdge option" where
  "findEdge net fromId toId =
     (case Map_get (edges net) (edgeId fromId toId) of
        Some e \<Rightarrow> Some e
      | None \<Rightarrow> Map_get (edges net) (edgeId toId fromId))"

text \<open>
  The objects in the queue are \<^verbatim>\<open>{ node, priority }\<close>. The loop reads them with
  \<^verbatim>\<open>const { node: currentNodeId, dist: currentDist } = pq.dequeue()\<close>, and an item has no
  property \<^verbatim>\<open>dist\<close>.
\<close>

definition dist_q :: "queue_item \<Rightarrow> jsval" where
  "dist_q item = Undefined"

text \<open>The callback of \<^verbatim>\<open>neighbors.forEach\<close>.\<close>

definition visit_neighbor ::
  "'c RoadNetwork \<Rightarrow> string \<Rightarrow> jsval \<Rightarrow> search_state \<Rightarrow> string \<Rightarrow> search_state" where
  "visit_neighbor net currentNodeId currentDist st neighborId =
     (if neighborId \<in> set (visited st) then st
      else case findEdge net currentNodeId neighborId of
        None \<Rightarrow> st
      | Some edge \<Rightarrow>
          (let newDist = js_add currentDist (time_e edge)
           in if js_lt newDist (case Map_get (distances st) neighborId of
                                  None \<Rightarrow> Undefined | Some d \<Rightarrow> d)
              then st\<lparr>distances := Map_set neighborId newDist (distances st),
                      previous := Map_set neighborId currentNodeId (previous st),
                      pq := enqueue (pq st) neighborId newDist\<rparr>
              else st))"

text \<open>
  The \<^verbatim>\<open>while (!pq.isEmpty())\<close> loop: \<open>isEmpty\<close> holds of the empty list of items, and
  \<open>dequeue\<close> (\<^verbatim>\<open>items.shift()\<close>) takes the first item off. Nothing in the shape of the loop
  bounds the number of rounds, so it is a partial function: \<open>None\<close> would be a loop that
  never ends.
\<close>

partial_function (option) search_loop ::
  "'c RoadNetwork \<Rightarrow> jsval \<Rightarrow> search_state \<Rightarrow> search_state option" where
  "search_loop net maxTimeSeconds st =
     (case pq st of
        [] \<Rightarrow> Some st
      | item # rest \<Rightarrow>
          (let currentNodeId = node_q item;
               currentDist = dist_q item;
               st1 = st\<lparr>pq := rest\<rparr>
           in if currentNodeId \<in> set (visited st1) then search_loop net maxTimeSeconds st1
              else
                (let st2 = st1\<lparr>visited := Set_add currentNodeId (visited st1)\<rparr>
                 in if js_gt currentDist maxTimeSeconds then search_loop net maxTimeSeconds st2
                    else
                      (let neighbors = (case Map_get (adjList net) currentNodeId of
                                          None \<Rightarrow> [] | Some s \<Rightarrow> s)
                       in search_loop net maxTimeSeconds
                            (foldl (visit_neighbor net currentNodeId currentDist) st2 neighbors)))))"

declare search_loop.simps [code]

definition init_distances :: "'c RoadNetwork \<Rightarrow> (string \<times> jsval) list" where
  "init_distances net =
     foldl (\<lambda>d n. Map_set (id_node n) Infinity d) [] (getAllNodes net)"

text \<open>
  The filter of the result keeps an entry when \<^verbatim>\<open>dist <= maxTimeSeconds && dist\<close> is truthy.
\<close>

definition reachable_filter :: "jsval \<Rightarrow> string \<times> jsval \<Rightarrow> bool" where
  "reachable_filter maxTimeSeconds e =
     (js_le (snd e) maxTimeSeconds \<and> truthy (snd e))"

definition search_result_of :: "'c RoadNetwork \<Rightarrow> jsval \<Rightarrow> search_state \<Rightarrow> 'c search_result" where
  "search_result_of net maxTimeSeconds st =
     \<lparr>distances_r = distances st,
      previous_r = previous st,
      reachableNodes =
        map (\<lambda>e. \<lparr>nodeId = fst e, node = getNode net (fst e), distance = snd e\<rparr>)
          (filter (reachable_filter maxTimeSeconds) (distances st))\<rparr>"

definition search :: "'c RoadNetwork \<Rightarrow> string \<Rightarrow> jsval \<Rightarrow> 'c search_result option" where
  "search net startNodeId maxTimeSeconds =
     (let st0 = \<lparr>distances = Map_set startNodeId (Number 0) (init_distances net),
                 previous = [],
                 visited = [],
                 pq = enqueue [] startNodeId (Number 0)\<rparr>
      in map_option (search_result_of net maxTimeSeconds)
           (search_loop net maxTimeSeconds st0))"

section \<open>Export and import\<close>

text \<open>
  A JSON text is represented by the value it parses to, restricted to the shape the import
  reads: an object that may hold an array under \<^verbatim>\<open>nodes\<close> and an array under \<^verbatim>\<open>edges\<close>
  (\<open>None\<close>: no array there), node objects with a string \<^verbatim>\<open>id\<close>, edge objects with strings
  \<^verbatim>\<open>from\<close> and \<^verbatim>\<open>to\<close>. What a node object holds under \<^verbatim>\<open>connections\<close> is one of three kinds:
  nothing or a falsy value, an array of strings, or a value that cannot be iterated (an
  object, a non-zero number, \<^verbatim>\<open>true\<close>).
\<close>

datatype connections_json = NoConnections | ConnectionArray "string list" | NotIterable

record 'c node_json =
  id_j :: string
  lng_j :: 'c
  lat_j :: 'c
  connections_j :: connections_json
  isBoundary_j :: "bool option"

record 'c snapshot =
  nodes_j :: "'c node_json list option"
  edges_j :: "RoadEdge list option"

text \<open>
  \<^verbatim>\<open>JSON.stringify\<close> writes a \<^verbatim>\<open>Set\<close> as \<^verbatim>\<open>{}\<close> (it has no enumerable properties of its own), a
  non-finite number as \<^verbatim>\<open>null\<close>, and leaves out a property that is \<^verbatim>\<open>undefined\<close>. Coordinates
  are carried over as they are.
\<close>

fun json_number :: "jsval \<Rightarrow> jsval" where
  "json_number NaN = Null"
| "json_number Infinity = Null"
| "json_number NegInfinity = Null"
| "json_number v = v"

definition node_to_json :: "'c RoadNode \<Rightarrow> 'c node_json" where
  "node_to_json n =
     \<lparr>id_j = id_node n, lng_j = lng n, lat_j = lat n,
      connections_j = NotIterable, isBoundary_j = Some (isBoundary n)\<rparr>"

definition edge_to_json :: "RoadEdge \<Rightarrow> RoadEdge" where
  "edge_to_json e =
     \<lparr>from_e = from_e e, to_e = to_e e,
      length_e = json_number (length_e e), time_e = json_number (time_e e)\<rparr>"

definition exportToJSON :: "'c RoadNetwork \<Rightarrow> 'c snapshot" where
  "exportToJSON net =
     \<lparr>nodes_j = Some (map node_to_json (Map_values (nodes net))),
      edges_j = Some (map edge_to_json (Map_values (edges net)))\<rparr>"

subsection \<open>The numeric suffix of an id\<close>

text \<open>\<^verbatim>\<open>id.split('_')[1]\<close>: the text between the first and the second underscore, if any.\<close>

definition split_1 :: "string \<Rightarrow> string option" where
  "split_1 s =
     (case dropWhile (\<lambda>c. c \<noteq> CHR ''_'') s of
        [] \<Rightarrow> None
      | _ # rest \<Rightarrow> Some (takeWhile (\<lambda>c. c \<noteq> CHR ''_'') rest))"

definition is_space :: "char \<Rightarrow> bool" where
  "is_space c = (c \<in> {CHR '' '', CHR 0x09, CHR 0x0A, CHR 0x0B, CHR 0x0C, CHR 0x0D})"

definition digit_value :: "char \<Rightarrow> nat option" where
  "digit_value c =
     (let n = (of_char c :: nat)
      in if 48 \<le> n \<and> n \<le> 57 then Some (n - 48)
         else if 97 \<le> n \<and> n \<le> 122 then Some (n - 87)
         else if 65 \<le> n \<and> n \<le> 90 then Some (n - 55)
         else None)"

definition is_digit :: "nat \<Rightarrow> char \<Rightarrow> bool" where
  "is_digit radix c = (case digit_value c of None \<Rightarrow> False | Some d \<Rightarrow> d < radix)"

definition digits_value :: "nat \<Rightarrow> string \<Rightarrow> nat" where
  "digits_value radix ds = foldl (\<lambda>acc c. acc * radix + the (digit_value c)) 0 ds"

text \<open>
  \<^verbatim>\<open>parseInt\<close> without a radix: leading white space, a sign, \<^verbatim>\<open>0x\<close> for base 16, then the
  longest run of digits; \<^verbatim>\<open>NaN\<close> (\<open>None\<close>) when there is no digit, as for \<^verbatim>\<open>undefined\<close>. Of the
  white space of JavaScript only the six ASCII characters are skipped here, not U+00A0 and
  the other characters beyond ASCII.
\<close>

definition parseInt :: "string option \<Rightarrow> int option" where
  "parseInt v =
     (case v of
        None \<Rightarrow> None
      | Some s \<Rightarrow>
          (let s1 = dropWhile is_space s;
               negative = (take 1 s1 = ''-'');
               s2 = (if take 1 s1 = ''-'' \<or> take 1 s1 = ''+'' then drop 1 s1 else s1);
               hex = (take 2 s2 = ''0x'' \<or> take 2 s2 = ''0X'');
               radix = (if hex then 16 else 10);
               s3 = (if hex then drop 2 s2 else s2);
               ds = takeWhile (is_digit radix) s3
           in if ds = [] then None
              else Some (if negative then - int (digits_value radix ds)
                         else int (digits_value radix ds))))"

text \<open>\<^verbatim>\<open>Math.max\<close> of two numbers: \<^verbatim>\<open>NaN\<close> as soon as one of them is.\<close>

definition math_max :: "int option \<Rightarrow> int option \<Rightarrow> int option" where
  "math_max a b = (case (a, b) of (Some x, Some y) \<Rightarrow> Some (max x y) | _ \<Rightarrow> None)"

subsection \<open>importFromJSON\<close>

text \<open>A \<^verbatim>\<open>forEach\<close> whose callback may throw: the first exception ends the walk.\<close>

fun forEach :: "('s \<Rightarrow> 'a \<Rightarrow> 's outcome) \<Rightarrow> 's \<Rightarrow> 'a list \<Rightarrow> 's outcome" where
  "forEach f s [] = Done s"
| "forEach f s (x # xs) =
     (case f s x of Done s' \<Rightarrow> forEach f s' xs | Thrown e s' \<Rightarrow> Thrown e s')"

text \<open>
  The callback on a node object. \<^verbatim>\<open>new Set(node.connections || [])\<close> comes before the node is
  stored, and throws \<^verbatim>\<open>TypeError\<close> on a value that is truthy and not iterable.
\<close>

definition import_node :: "'c RoadNetwork \<Rightarrow> 'c node_json \<Rightarrow> 'c RoadNetwork outcome" where
  "import_node net n =
     (case connections_j n of
        NotIterable \<Rightarrow> Thrown TypeError net
      | c \<Rightarrow>
          (let newNode = (new_RoadNode (id_j n) (lng_j n) (lat_j n))
                 \<lparr>isBoundary := (case isBoundary_j n of None \<Rightarrow> False | Some b \<Rightarrow> b),
                  connections := (case c of ConnectionArray xs \<Rightarrow> Set_of xs | _ \<Rightarrow> [])\<rparr>
           in Done (net\<lparr>nodes := Map_set (id_j n) newNode (nodes net),
                        adjList := Map_set (id_j n) [] (adjList net),
                        nextNodeId := math_max (nextNodeId net)
                                        (incr (parseInt (split_1 (id_j n))))\<rparr>)))"

text \<open>
  The callback on an edge object: the object is stored under its directional key, then the
  two adjacency sets are read; \<^verbatim>\<open>this.adjList.get(x).add\<close> throws \<^verbatim>\<open>TypeError\<close> when \<open>x\<close> has
  no adjacency entry.
\<close>

definition import_edge :: "'c RoadNetwork \<Rightarrow> RoadEdge \<Rightarrow> 'c RoadNetwork outcome" where
  "import_edge net e =
     (let net1 = net\<lparr>edges := Map_set (edgeId (from_e e) (to_e e)) e (edges net)\<rparr>
      in case Map_get (adjList net1) (from_e e) of
           None \<Rightarrow> Thrown TypeError net1
         | Some af \<Rightarrow>
             (let net2 = net1\<lparr>adjList := Map_set (from_e e) (Set_add (to_e e) af) (adjList net1)\<rparr>
              in case Map_get (adjList net2) (to_e e) of
                   None \<Rightarrow> Thrown TypeError net2
                 | Some ato \<Rightarrow>
                     Done (net2\<lparr>adjList := Map_set (to_e e) (Set_add (from_e e) ato)
                                              (adjList net2)\<rparr>)))"

text \<open>
  \<open>importFromJSON\<close> clears the three maps and resets the counter before it reads anything;
  \<^verbatim>\<open>data.nodes.forEach\<close> and \<^verbatim>\<open>data.edges.forEach\<close> throw \<^verbatim>\<open>TypeError\<close> where there is no array.
  The function starts from the parsed value: a text that \<^verbatim>\<open>JSON.parse\<close> refuses, with a
  \<^verbatim>\<open>SyntaxError\<close> thrown before the maps are cleared, is outside the model.
\<close>

definition importFromJSON :: "'c RoadNetwork \<Rightarrow> 'c snapshot \<Rightarrow> 'c RoadNetwork outcome" where
  "importFromJSON net data =
     (let net0 = net\<lparr>nodes := [], edges := [], adjList := [], nextNodeId := Some 1\<rparr>
      in case nodes_j data of
           None \<Rightarrow> Thrown TypeError net0
         | Some ns \<Rightarrow>
             (case forEach import_node net0 ns of
                Thrown e s \<Rightarrow> Thrown e s
              | Done net1 \<Rightarrow>
                  (case edges_j data of
                     None \<Rightarrow> Thrown TypeError net1
                   | Some es \<Rightarrow> forEach import_edge net1 es)))"

section \<open>Test roads\<close>

text \<open>
  \<^verbatim>\<open>TEST_ROAD_FEATURE.md\<close> gives the overlay computation. A point is an object
  \<^verbatim>\<open>{lng, lat}\<close> that the code only hands on, so its type is a parameter \<open>'p\<close>, as are the
  types of a polygon (\<open>'g\<close>) and of an area (\<open>'a\<close>). A test road carries the length and the
  walking time (in minutes) its constructor computed. Where the code puts points into a
  \<^verbatim>\<open>Set\<close>, the model tells two point objects apart by their coordinates.
\<close>

datatype road_status = Active | Deleted

record 'p TestRoad =
  id_t :: nat
  startPoint :: 'p
  endPoint :: 'p
  length_t :: jsval
  walkTime :: jsval
  status :: road_status

text \<open>
  The constructor of a test road. \<open>len\<close> is what \<open>calculateDistance\<close> returned for the two
  points (a haversine formula in floating point); the walking time is \<^verbatim>\<open>length / 83.3\<close>.
\<close>

definition new_TestRoad :: "nat \<Rightarrow> 'p \<Rightarrow> 'p \<Rightarrow> jsval \<Rightarrow> 'p TestRoad" where
  "new_TestRoad i s e len =
     \<lparr>id_t = i, startPoint = s, endPoint = e, length_t = len,
      walkTime = (case to_number len of Number l \<Rightarrow> Number (l / 83.3) | v \<Rightarrow> v),
      status = Active\<rparr>"

definition getActiveRoads :: "'p TestRoad list \<Rightarrow> 'p TestRoad list" where
  "getActiveRoads testRoads = filter (\<lambda>road. status road = Active) testRoads"

text \<open>
  The result of the base search. \<open>center\<close> is \<open>None\<close> when the result has no such property.
\<close>

record ('p, 'g, 'a) area_result =
  boundaryPoints :: "'p list"
  polygon :: 'g
  area :: 'a
  center :: "'p option"

record ('p, 'g, 'a) enhanced_result =
  boundaryPoints_e :: "'p list"
  polygon_e :: 'g
  area_e :: 'a

text \<open>
  \<open>isPointInPolygon\<close> and \<open>createPolygonFromPoints\<close> are not in the repository, and
  \<open>calculatePolygonArea\<close> works in floating point with a cosine: the three are parameters.
\<close>

definition isPointAccessible ::
  "('p \<Rightarrow> 'g \<Rightarrow> bool) \<Rightarrow> 'p \<Rightarrow> ('p, 'g, 'a) area_result \<Rightarrow> bool" where
  "isPointAccessible isPointInPolygon point originalResult =
     isPointInPolygon point (polygon originalResult)"

text \<open>
  The callback of \<^verbatim>\<open>testRoads.forEach\<close>. \<open>enhancedBoundaryPoints\<close> is a \<^verbatim>\<open>Set\<close>, and a \<^verbatim>\<open>Set\<close> has
  no method \<^verbatim>\<open>push\<close>: both calls \<^verbatim>\<open>enhancedBoundaryPoints.push(...)\<close> throw \<^verbatim>\<open>TypeError\<close>.
\<close>

definition visit_road ::
  "('p \<Rightarrow> 'g \<Rightarrow> bool) \<Rightarrow> ('p, 'g, 'a) area_result \<Rightarrow> jsval \<Rightarrow> 'p list \<Rightarrow> 'p TestRoad
     \<Rightarrow> 'p list outcome" where
  "visit_road isPointInPolygon originalResult maxTimeMinutes enhancedBoundaryPoints road =
     (let startAccessible = isPointAccessible isPointInPolygon (startPoint road) originalResult;
          endAccessible = isPointAccessible isPointInPolygon (endPoint road) originalResult
      in if startAccessible \<and> \<not> endAccessible then
           (if js_le (walkTime road) maxTimeMinutes
            then Thrown TypeError enhancedBoundaryPoints
            else Done enhancedBoundaryPoints)
         else if \<not> startAccessible \<and> endAccessible then
           (if js_le (walkTime road) maxTimeMinutes
            then Thrown TypeError enhancedBoundaryPoints
            else Done enhancedBoundaryPoints)
         else Done enhancedBoundaryPoints)"

text \<open>
  \<open>enhanceWithTestRoads\<close>: reading \<^verbatim>\<open>originalResult.center.lng\<close> throws when there is no
  \<open>center\<close>; an exception of the walk over the roads leaves the function with no result.
\<close>

definition enhanceWithTestRoads ::
  "('p \<Rightarrow> 'g \<Rightarrow> bool) \<Rightarrow> ('p list \<Rightarrow> 'g) \<Rightarrow> ('g \<Rightarrow> 'a) \<Rightarrow>
   ('p, 'g, 'a) area_result \<Rightarrow> 'p TestRoad list \<Rightarrow> jsval \<Rightarrow>
   error + ('p, 'g, 'a) enhanced_result" where
  "enhanceWithTestRoads isPointInPolygon createPolygonFromPoints calculatePolygonArea
     originalResult testRoads maxTimeMinutes =
     (let enhancedBoundaryPoints = Set_of (boundaryPoints originalResult)
      in case center originalResult of
           None \<Rightarrow> Inl TypeError
         | Some origin \<Rightarrow>
             (case forEach (visit_road isPointInPolygon originalResult maxTimeMinutes)
                     enhancedBoundaryPoints testRoads of
                Thrown e s \<Rightarrow> Inl e
              | Done pts \<Rightarrow>
                  (let enhancedPolygon = createPolygonFromPoints pts
                   in Inr \<lparr>boundaryPoints_e = pts,
                           polygon_e = enhancedPolygon,
                           area_e = calculatePolygonArea enhancedPolygon\<rparr>)))"

section \<open>Consistency of a network\<close>

text \<open>
  The invariants the data model asks of a network, as far as \<open>removeNode\<close> relies on them.
  \<open>linked net a b\<close>: the node \<open>a\<close> exists and lists \<open>b\<close> among its connections.
\<close>

definition linked :: "'c RoadNetwork \<Rightarrow> string \<Rightarrow> string \<Rightarrow> bool" where
  "linked net a b =
     (case Map_get (nodes net) a of None \<Rightarrow> False | Some n \<Rightarrow> b \<in> set (connections n))"

text \<open>
  A network is consistent when its three maps have no key twice, every stored edge sits under
  the key made of its own endpoints and both endpoints list each other, and every id in an
  adjacency set or in a connection set belongs to a node that lists the owner of the set.
\<close>

definition consistent :: "'c RoadNetwork \<Rightarrow> bool" where
  "consistent net =
     (distinct (map fst (nodes net)) \<and> distinct (map fst (edges net)) \<and>
      distinct (map fst (adjList net)) \<and>
      list_all (\<lambda>(k, e). k = edgeId (from_e e) (to_e e) \<and>
                  linked net (from_e e) (to_e e) \<and> linked net (to_e e) (from_e e)) (edges net) \<and>
      list_all (\<lambda>(k, s). list_all (\<lambda>y. linked net y k) s) (adjList net) \<and>
      list_all (\<lambda>(k, n). list_all (\<lambda>y. linked net y k) (connections n)) (nodes net))"


section \<open>Networks used as examples\<close>

text \<open>The state an operation leaves behind, whether it returned or threw.\<close>

fun state_of :: "'s outcome \<Rightarrow> 's" where
  "state_of (Done s) = s"
| "state_of (Thrown e s) = s"

text \<open>One node, \<^verbatim>\<open>n_1\<close>.\<close>

definition one_node_network :: "real RoadNetwork" where
  "one_node_network = snd (addNode new_RoadNetwork 0 0)"

text \<open>Two nodes, \<^verbatim>\<open>n_1\<close> and \<^verbatim>\<open>n_2\<close>, no edge.\<close>

definition two_node_network :: "real RoadNetwork" where
  "two_node_network = snd (addNode one_node_network 1 0)"

text \<open>
  Three nodes in a line, \<^verbatim>\<open>n_1\<close>, \<^verbatim>\<open>n_2\<close>, \<^verbatim>\<open>n_3\<close>, with an edge of 100 m between the first two
  and an edge of 100 m between the last two.
\<close>

definition line_network :: "real RoadNetwork" where
  "line_network =
     state_of (addEdge
       (state_of (addEdge (snd (addNode two_node_network 2 0)) ''n_1'' ''n_2'' (Number 100)))
       ''n_2'' ''n_3'' (Number 100))"

text \<open>
  A snapshot in the documented format, written by hand: two nodes, each listing the other
  under \<^verbatim>\<open>connections\<close>, and the edge between them.
\<close>

definition two_node_snapshot :: "real snapshot" where
  "two_node_snapshot =
     \<lparr>nodes_j = Some
        [\<lparr>id_j = ''n_1'', lng_j = 0, lat_j = 0,
          connections_j = ConnectionArray [''n_2''], isBoundary_j = Some False\<rparr>,
         \<lparr>id_j = ''n_2'', lng_j = 1, lat_j = 0,
          connections_j = ConnectionArray [''n_1''], isBoundary_j = Some True\<rparr>],
      edges_j = Some [new_RoadEdge ''n_1'' ''n_2'' (Number 100)]\<rparr>"

text \<open>
  The same two nodes and edge, with no \<^verbatim>\<open>connections\<close> in the node objects.
\<close>

definition edges_only_snapshot :: "real snapshot" where
  "edges_only_snapshot =
     \<lparr>nodes_j = Some
        [\<lparr>id_j = ''n_1'', lng_j = 0, lat_j = 0,
          connections_j = NoConnections, isBoundary_j = None\<rparr>,
         \<lparr>id_j = ''n_2'', lng_j = 1, lat_j = 0,
          connections_j = NoConnections, isBoundary_j = None\<rparr>],
      edges_j = Some [new_RoadEdge ''n_1'' ''n_2'' (Number 100)]\<rparr>"

text \<open>A snapshot whose only edge names a node, \<^verbatim>\<open>n_7\<close>, that is not in its node list.\<close>

definition dangling_snapshot :: "real snapshot" where
  "dangling_snapshot =
     \<lparr>nodes_j = Some
        [\<lparr>id_j = ''n_4'', lng_j = 0, lat_j = 0,
          connections_j = NoConnections, isBoundary_j = None\<rparr>],
      edges_j = Some [new_RoadEdge ''n_4'' ''n_7'' (Number 100)]\<rparr>"

text \<open>
  For the test roads: a square of 0.01 degrees as the result of the base search, a point
  test that holds inside the bounding box of the polygon's vertices, and a test road of
  778 m (a little over nine minutes) that leads from the centre of the square to a point
  outside.
\<close>

definition in_bounding_box :: "real \<times> real \<Rightarrow> (real \<times> real) list \<Rightarrow> bool" where
  "in_bounding_box p g =
     (list_ex (\<lambda>q. fst q \<le> fst p) g \<and> list_ex (\<lambda>q. fst p \<le> fst q) g \<and>
      list_ex (\<lambda>q. snd q \<le> snd p) g \<and> list_ex (\<lambda>q. snd p \<le> snd q) g)"

definition square_result :: "(real \<times> real, (real \<times> real) list, real) area_result" where
  "square_result =
     \<lparr>boundaryPoints = [(0, 0), (0.01, 0), (0.01, 0.01), (0, 0.01)],
      polygon = [(0, 0), (0.01, 0), (0.01, 0.01), (0, 0.01)],
      area = 1232100,
      center = Some (0.005, 0.005)\<rparr>"

definition outward_road :: "(real \<times> real) TestRoad" where
  "outward_road = new_TestRoad 1 (0.005, 0.005) (0.012, 0.005) (Number 778)"

text \<open>A snapshot whose node has words where the coordinates should be.\<close>

definition text_snapshot :: "string snapshot" where
  "text_snapshot =
     \<lparr>nodes_j = Some
        [\<lparr>id_j = ''n_1'', lng_j = ''east'', lat_j = ''north'',
          connections_j = NoConnections, isBoundary_j = None\<rparr>],
      edges_j = Some []\<rparr>"

section \<open>Properties\<close>

subsection \<open>The example networks, evaluated\<close>

lemma one_node_network_eq:
  "one_node_network =
     \<lparr>nodes = [(''n_1'', \<lparr>id_node = ''n_1'', lng = 0, lat = 0, connections = [],
                          isBoundary = False\<rparr>)],
      edges = [], adjList = [(''n_1'', [])], nextNodeId = Some 2\<rparr>"
  by (simp add: one_node_network_def addNode_def new_RoadNetwork_def new_RoadNode_def
      number_string_def digits.simps incr_def Let_def)

lemma two_node_network_eq:
  "two_node_network =
     \<lparr>nodes = [(''n_1'', \<lparr>id_node = ''n_1'', lng = 0, lat = 0, connections = [],
                          isBoundary = False\<rparr>),
               (''n_2'', \<lparr>id_node = ''n_2'', lng = 1, lat = 0, connections = [],
                          isBoundary = False\<rparr>)],
      edges = [], adjList = [(''n_1'', []), (''n_2'', [])], nextNodeId = Some 3\<rparr>"
  by (simp add: two_node_network_def one_node_network_eq addNode_def new_RoadNode_def
      number_string_def digits.simps incr_def Let_def)

lemma line_network_eq:
  "line_network =
     \<lparr>nodes = [(''n_1'', \<lparr>id_node = ''n_1'', lng = 0, lat = 0, connections = [''n_2''],
                          isBoundary = False\<rparr>),
               (''n_2'', \<lparr>id_node = ''n_2'', lng = 1, lat = 0,
                          connections = [''n_1'', ''n_3''], isBoundary = False\<rparr>),
               (''n_3'', \<lparr>id_node = ''n_3'', lng = 2, lat = 0, connections = [''n_2''],
                          isBoundary = False\<rparr>)],
      edges = [(''n_1-n_2'', \<lparr>from_e = ''n_1'', to_e = ''n_2'', length_e = Number 100,
                              time_e = Number (600000 / 8333)\<rparr>),
               (''n_2-n_3'', \<lparr>from_e = ''n_2'', to_e = ''n_3'', length_e = Number 100,
                              time_e = Number (600000 / 8333)\<rparr>)],
      adjList = [(''n_1'', [''n_2'']), (''n_2'', [''n_1'', ''n_3'']), (''n_3'', [''n_2''])],
      nextNodeId = Some 4\<rparr>"
  by (simp add: line_network_def two_node_network_eq addNode_def addEdge_def new_RoadNode_def
      new_RoadEdge_def walk_time_def edgeId_def Set_add_def
      number_string_def digits.simps incr_def Let_def)

subsection \<open>What the search loop does\<close>

text \<open>
  \<open>currentDist\<close> is \<^verbatim>\<open>undefined\<close> in every round, so \<open>newDist\<close> is \<^verbatim>\<open>NaN\<close>, the comparison
  \<^verbatim>\<open>newDist < distances.get(neighborId)\<close> is false, and no neighbour is ever updated or
  enqueued.
\<close>

lemma visit_neighbor_undefined: "visit_neighbor net c Undefined st nb = st"
  by (simp add: visit_neighbor_def js_add_def js_lt_def split: option.split)

lemma forEach_neighbors_undefined: "foldl (visit_neighbor net c Undefined) st nbs = st"
  by (induction nbs) (simp_all add: visit_neighbor_undefined)

text \<open>
  From any state the loop ends: a round takes one item off the queue and puts none on it.
\<close>

lemma search_loop_total:
  "\<exists>st'. search_loop net m st = Some st' \<and> distances st' = distances st
         \<and> previous st' = previous st"
proof (induction "pq st" arbitrary: st)
  case Nil
  then show ?case by (subst search_loop.simps) simp
next
  case (Cons item rest)
  have a: "rest = pq (st\<lparr>pq := rest\<rparr>)" by simp
  have b: "rest = pq (st\<lparr>pq := rest, visited := Set_add (node_q item) (visited st)\<rparr>)"
    by simp
  from Cons.hyps(1)[OF a] Cons.hyps(1)[OF b] Cons.hyps(2)[symmetric]
  show ?case
    by (subst search_loop.simps)
       (auto simp add: dist_q_def js_gt_def Let_def forEach_neighbors_undefined)
qed

lemma search_loop_single:
  "pq st = [item] \<Longrightarrow> visited st = [] \<Longrightarrow>
   search_loop net m st = Some (st\<lparr>pq := [], visited := [node_q item]\<rparr>)"
  apply (subst search_loop.simps)
  apply (simp add: dist_q_def js_gt_def Let_def forEach_neighbors_undefined Set_add_def)
  apply (subst search_loop.simps)
  apply simp
  done

lemma search_value:
  "search net s m = Some (search_result_of net m
      \<lparr>distances = Map_set s (Number 0) (init_distances net), previous = [],
       visited = [s], pq = []\<rparr>)"
  by (simp add: search_def enqueue_def sort_items_def search_loop_single)

text \<open>
  C10: for every network, origin and time budget the search loop ends. The loop ends from
  every state of the queue, and so \<open>search\<close> returns a result.
\<close>

theorem search_terminates:
  "(\<exists>st'. search_loop net maxTimeSeconds st = Some st') \<and>
   (\<exists>r. search net startNodeId maxTimeSeconds = Some r)"
proof
  from search_loop_total [of net maxTimeSeconds st]
  show "\<exists>st'. search_loop net maxTimeSeconds st = Some st'" by blast
next
  show "\<exists>r. search net startNodeId maxTimeSeconds = Some r"
    by (simp add: search_value)
qed

text \<open>
  C2: on the three nodes in a line with two edges of 100 m, the search from the first node
  with budget 100 and with budget 150 returns, both times, a distance map in which only the
  origin has a finite distance, and an empty list of reachable nodes.
\<close>

theorem line_network_search:
  "search line_network ''n_1'' (Number 100) =
     Some \<lparr>distances_r = [(''n_1'', Number 0), (''n_2'', Infinity), (''n_3'', Infinity)],
           previous_r = [], reachableNodes = []\<rparr> \<and>
   search line_network ''n_1'' (Number 150) =
     Some \<lparr>distances_r = [(''n_1'', Number 0), (''n_2'', Infinity), (''n_3'', Infinity)],
           previous_r = [], reachableNodes = []\<rparr>"
  by (simp add: search_value search_result_of_def init_distances_def getAllNodes_def
      line_network_eq reachable_filter_def js_le_def)

subsection \<open>The distance map of a result\<close>

lemma set_Map_set: "set (Map_set k v al) \<subseteq> insert (k, v) (set al)"
  by (induction al) auto

lemma init_distances_fold_values:
  "\<forall>e \<in> set acc. snd e = Infinity \<Longrightarrow>
   \<forall>e \<in> set (foldl (\<lambda>d n. Map_set (id_node n) Infinity d) acc ns). snd e = Infinity"
proof (induction ns arbitrary: acc)
  case Nil
  then show ?case by simp
next
  case (Cons n ns)
  have "\<forall>e \<in> set (Map_set (id_node n) Infinity acc). snd e = Infinity"
    using Cons.prems set_Map_set [of "id_node n" Infinity acc] by auto
  from Cons.IH [OF this] show ?case by simp
qed

lemma init_distances_values: "e \<in> set (init_distances net) \<Longrightarrow> snd e = Infinity"
  using init_distances_fold_values [of "[]" "getAllNodes net"]
  by (simp add: init_distances_def)

lemma init_distances_fold_distinct:
  "distinct (map fst acc) \<Longrightarrow>
   distinct (map fst (foldl (\<lambda>d n. Map_set (id_node n) Infinity d) acc ns))"
  by (induction ns arbitrary: acc) (simp_all add: distinct_update)

lemma init_distances_distinct: "distinct (map fst (init_distances net))"
  using init_distances_fold_distinct [of "[]" "getAllNodes net"]
  by (simp add: init_distances_def)

lemma start_distance_entries:
  "e \<in> set (Map_set s (Number 0) (init_distances net)) \<Longrightarrow>
   (fst e = s \<and> snd e = Number 0) \<or> (fst e \<noteq> s \<and> snd e = Infinity)"
proof -
  assume e: "e \<in> set (Map_set s (Number 0) (init_distances net))"
  have d: "distinct (map fst (Map_set s (Number 0) (init_distances net)))"
    by (simp add: distinct_update init_distances_distinct)
  have m: "map_of (Map_set s (Number 0) (init_distances net)) (fst e) = Some (snd e)"
    using e d by simp
  show ?thesis
  proof (cases "fst e = s")
    case True
    with m show ?thesis by (simp add: update_conv')
  next
    case False
    with e set_Map_set [of s "Number 0" "init_distances net"]
    have "e \<in> set (init_distances net)" by (cases e) auto
    with False show ?thesis by (simp add: init_distances_values)
  qed
qed

text \<open>
  C1: for every network, origin and budget the search returns a result in which the distance
  map holds the origin at 0, and the list of reachable nodes does not contain the origin:
  the filter reads the distance 0 as false.
\<close>

theorem search_omits_origin:
  "\<exists>r. search net startNodeId maxTimeSeconds = Some r \<and>
       Map_get (distances_r r) startNodeId = Some (Number 0) \<and>
       startNodeId \<notin> nodeId ` set (reachableNodes r)"
proof -
  have "\<not> reachable_filter maxTimeSeconds e"
    if "e \<in> set (Map_set startNodeId (Number 0) (init_distances net))" "fst e = startNodeId" for e
    using start_distance_entries [OF that(1)] that(2) by (simp add: reachable_filter_def)
  then show ?thesis
    by (auto simp add: search_value search_result_of_def update_conv')
qed

text \<open>
  C7 (as amended): a search from an origin that is absent from the network does not fail:
  for every budget it returns a search result, and the distance map of the result holds the
  origin at 0.
\<close>

theorem search_absent_origin:
  assumes "getNode net startNodeId = None"
  shows "\<exists>r. search net startNodeId maxTimeSeconds = Some r \<and>
             Map_get (distances_r r) startNodeId = Some (Number 0)"
  by (simp add: search_value search_result_of_def update_conv')

text \<open>The statement at the network of one node, for the origin \<^verbatim>\<open>n_9\<close> and a budget of 100.\<close>

theorem search_absent_origin_witness:
  "getNode one_node_network ''n_9'' = None \<and>
   (\<exists>r. search one_node_network ''n_9'' (Number 100) = Some r \<and>
        Map_get (distances_r r) ''n_9'' = Some (Number 0))"
proof -
  have h: "getNode one_node_network ''n_9'' = None"
    by (simp add: getNode_def one_node_network_eq)
  from search_absent_origin [OF h, of "Number 100"] h show ?thesis by simp
qed

text \<open>
  C7 as stated fails: \<^verbatim>\<open>n_5\<close> is not a node of the network of two nodes, and the search from
  it returns a result.
\<close>

theorem search_origin_not_found_counterexample:
  "getNode two_node_network ''n_5'' = None \<and>
   search two_node_network ''n_5'' (Number 60) =
     Some \<lparr>distances_r = [(''n_1'', Infinity), (''n_2'', Infinity), (''n_5'', Number 0)],
           previous_r = [], reachableNodes = []\<rparr>"
  by (simp add: getNode_def search_value search_result_of_def init_distances_def
      getAllNodes_def two_node_network_eq reachable_filter_def js_le_def)

subsection \<open>addEdge\<close>


lemma addEdge_error: "addEdge net a b len = Thrown e s \<Longrightarrow> e = TypeError"
  by (simp add: addEdge_def Let_def split: option.splits)

text \<open>
  C6 (as amended): \<open>addEdge\<close> checks nothing. With \<open>a = b\<close> and the node present (and its
  adjacency entry) the call returns, and the self-loop is stored under the key \<open>a-a\<close>. When
  either endpoint is absent from the node map the call throws \<^verbatim>\<open>TypeError\<close>, and the state
  it leaves already holds the new edge in the edge map. No call ends in
  \<open>EdgeEndpointMissing\<close> or \<open>SelfLoop\<close>.
\<close>

theorem addEdge_unchecked:
  "(getNode net a \<noteq> None \<and> Map_get (adjList net) a \<noteq> None \<longrightarrow>
      (\<exists>net'. addEdge net a a len = Done net' \<and>
              Map_get (edges net') (edgeId a a) = Some (new_RoadEdge a a len))) \<and>
   (getNode net a = None \<or> getNode net b = None \<longrightarrow>
      (\<exists>s. addEdge net a b len = Thrown TypeError s \<and>
           Map_get (edges s) (edgeId a b) = Some (new_RoadEdge a b len))) \<and>
   (\<forall>s. addEdge net a b len \<noteq> Thrown EdgeEndpointMissing s \<and>
        addEdge net a b len \<noteq> Thrown SelfLoop s)"
proof -
  have "\<forall>s. addEdge net a b len \<noteq> Thrown EdgeEndpointMissing s \<and>
            addEdge net a b len \<noteq> Thrown SelfLoop s"
    using addEdge_error [of net a b len] by fastforce
  then show ?thesis
    by (auto simp add: addEdge_def getNode_def Let_def update_conv' split: option.splits)
qed

text \<open>
  The statement at the network of one node: \<^verbatim>\<open>n_1\<close> is present, \<^verbatim>\<open>n_2\<close> is absent.
\<close>

theorem addEdge_unchecked_witness:
  "getNode one_node_network ''n_1'' \<noteq> None \<and> Map_get (adjList one_node_network) ''n_1'' \<noteq> None \<and>
   getNode one_node_network ''n_2'' = None \<and>
   (\<exists>net'. addEdge one_node_network ''n_1'' ''n_1'' (Number 100) = Done net' \<and>
       Map_get (edges net') ''n_1-n_1'' = Some (new_RoadEdge ''n_1'' ''n_1'' (Number 100))) \<and>
   (\<exists>s. addEdge one_node_network ''n_1'' ''n_2'' (Number 100) = Thrown TypeError s \<and>
       Map_get (edges s) ''n_1-n_2'' = Some (new_RoadEdge ''n_1'' ''n_2'' (Number 100)))"
proof -
  have h1: "getNode one_node_network ''n_1'' \<noteq> None \<and> Map_get (adjList one_node_network) ''n_1'' \<noteq> None"
    by (simp add: getNode_def one_node_network_eq)
  have h2: "getNode one_node_network ''n_2'' = None"
    by (simp add: getNode_def one_node_network_eq)
  from addEdge_unchecked [of one_node_network "''n_1''" "Number 100" "''n_2''"] h1 h2
  show ?thesis by (simp add: edgeId_def)
qed

text \<open>
  C6 as stated fails on the network of one node: an edge from \<^verbatim>\<open>n_1\<close> to itself is accepted
  and stored, and an edge to or from the absent \<^verbatim>\<open>n_2\<close> ends in \<^verbatim>\<open>TypeError\<close> with the edge
  stored (and, when the first endpoint exists, its connection set extended).
\<close>

theorem addEdge_rejection_counterexample:
  "addEdge one_node_network ''n_1'' ''n_1'' (Number 100) =
     Done \<lparr>nodes = [(''n_1'', \<lparr>id_node = ''n_1'', lng = 0, lat = 0, connections = [''n_1''],
                               isBoundary = False\<rparr>)],
           edges = [(''n_1-n_1'', \<lparr>from_e = ''n_1'', to_e = ''n_1'', length_e = Number 100,
                                   time_e = Number (600000 / 8333)\<rparr>)],
           adjList = [(''n_1'', [''n_1''])], nextNodeId = Some 2\<rparr> \<and>
   addEdge one_node_network ''n_1'' ''n_2'' (Number 100) =
     Thrown TypeError
          \<lparr>nodes = [(''n_1'', \<lparr>id_node = ''n_1'', lng = 0, lat = 0, connections = [''n_2''],
                               isBoundary = False\<rparr>)],
           edges = [(''n_1-n_2'', \<lparr>from_e = ''n_1'', to_e = ''n_2'', length_e = Number 100,
                                   time_e = Number (600000 / 8333)\<rparr>)],
           adjList = [(''n_1'', [])], nextNodeId = Some 2\<rparr> \<and>
   addEdge one_node_network ''n_2'' ''n_1'' (Number 100) =
     Thrown TypeError
          \<lparr>nodes = [(''n_1'', \<lparr>id_node = ''n_1'', lng = 0, lat = 0, connections = [],
                               isBoundary = False\<rparr>)],
           edges = [(''n_2-n_1'', \<lparr>from_e = ''n_2'', to_e = ''n_1'', length_e = Number 100,
                                   time_e = Number (600000 / 8333)\<rparr>)],
           adjList = [(''n_1'', [])], nextNodeId = Some 2\<rparr>"
  by (simp add: addEdge_def one_node_network_eq new_RoadEdge_def walk_time_def edgeId_def
      Set_add_def Let_def)




subsection \<open>Imports of hand-written snapshots\<close>

lemmas import_eval =
  importFromJSON_def new_RoadNetwork_def import_node_def import_edge_def new_RoadNode_def
  new_RoadEdge_def walk_time_def edgeId_def Set_add_def Set_of_def math_max_def incr_def
  parseInt_def split_1_def is_space_def is_digit_def digit_value_def digits_value_def Let_def

text \<open>
  A snapshot in the documented format is imported as written; the counter ends one above
  the largest suffix.
\<close>

lemma import_two_node_snapshot:
  "importFromJSON new_RoadNetwork two_node_snapshot =
     Done \<lparr>nodes = [(''n_1'', \<lparr>id_node = ''n_1'', lng = 0, lat = 0, connections = [''n_2''],
                               isBoundary = False\<rparr>),
                    (''n_2'', \<lparr>id_node = ''n_2'', lng = 1, lat = 0, connections = [''n_1''],
                               isBoundary = True\<rparr>)],
           edges = [(''n_1-n_2'', \<lparr>from_e = ''n_1'', to_e = ''n_2'', length_e = Number 100,
                                   time_e = Number (600000 / 8333)\<rparr>)],
           adjList = [(''n_1'', [''n_2'']), (''n_2'', [''n_1''])], nextNodeId = Some 3\<rparr>"
  by (simp add: two_node_snapshot_def import_eval)

text \<open>
  Without \<^verbatim>\<open>connections\<close> in the snapshot the adjacency sets are built from the edges, and
  the connection sets stay empty.
\<close>

lemma import_edges_only_snapshot:
  "importFromJSON new_RoadNetwork edges_only_snapshot =
     Done \<lparr>nodes = [(''n_1'', \<lparr>id_node = ''n_1'', lng = 0, lat = 0, connections = [],
                               isBoundary = False\<rparr>),
                    (''n_2'', \<lparr>id_node = ''n_2'', lng = 1, lat = 0, connections = [],
                               isBoundary = False\<rparr>)],
           edges = [(''n_1-n_2'', \<lparr>from_e = ''n_1'', to_e = ''n_2'', length_e = Number 100,
                                   time_e = Number (600000 / 8333)\<rparr>)],
           adjList = [(''n_1'', [''n_2'']), (''n_2'', [''n_1''])], nextNodeId = Some 3\<rparr>"
  by (simp add: edges_only_snapshot_def import_eval)

subsection \<open>removeEdge and removeNode\<close>















lemma linkedD: "linked net a b \<Longrightarrow> \<exists>n. Map_get (nodes net) a = Some n \<and> b \<in> set (connections n)"
  by (simp add: linked_def split: option.splits)

lemma consistent_edges:
  "consistent net \<Longrightarrow> Map_get (edges net) k = Some e \<Longrightarrow>
   k = edgeId (from_e e) (to_e e) \<and> linked net (from_e e) (to_e e) \<and> linked net (to_e e) (from_e e)"
  by (auto simp add: consistent_def list_all_iff dest!: map_of_SomeD)

lemma consistent_adjList:
  "consistent net \<Longrightarrow> Map_get (adjList net) k = Some s \<Longrightarrow> y \<in> set s \<Longrightarrow> linked net y k"
  by (auto simp add: consistent_def list_all_iff dest!: map_of_SomeD)

lemma consistent_nodes:
  "consistent net \<Longrightarrow> Map_get (nodes net) k = Some n \<Longrightarrow> y \<in> set (connections n) \<Longrightarrow>
   linked net y k"
  by (auto simp add: consistent_def list_all_iff dest!: map_of_SomeD)



subsection \<open>Which operations keep a network consistent\<close>

text \<open>
  \<open>removeEdge\<close> and \<open>removeNode\<close> always do; \<open>addEdge\<close> does when it returns (a call that
  throws has already written the edge), and \<open>addNode\<close> when the id it makes is not yet a node.
\<close>

text \<open>Consistency, read through the lookups of the three maps.\<close>

lemma consistent_iff:
  "consistent net \<longleftrightarrow>
     distinct (map fst (nodes net)) \<and> distinct (map fst (edges net)) \<and>
     distinct (map fst (adjList net)) \<and>
     (\<forall>k e. Map_get (edges net) k = Some e \<longrightarrow>
        k = edgeId (from_e e) (to_e e) \<and> linked net (from_e e) (to_e e) \<and>
        linked net (to_e e) (from_e e)) \<and>
     (\<forall>k s y. Map_get (adjList net) k = Some s \<longrightarrow> y \<in> set s \<longrightarrow> linked net y k) \<and>
     (\<forall>k n y. Map_get (nodes net) k = Some n \<longrightarrow> y \<in> set (connections n) \<longrightarrow> linked net y k)"
  (is "?L \<longleftrightarrow> ?D1 \<and> ?D2 \<and> ?D3 \<and> ?E \<and> ?A \<and> ?N")
proof
  assume l: ?L
  have ?E using consistent_edges [OF l] by blast
  moreover have ?A using consistent_adjList [OF l] by blast
  moreover have ?N using consistent_nodes [OF l] by blast
  moreover from l have "?D1 \<and> ?D2 \<and> ?D3" by (simp add: consistent_def)
  ultimately show "?D1 \<and> ?D2 \<and> ?D3 \<and> ?E \<and> ?A \<and> ?N" by blast
next
  assume r: "?D1 \<and> ?D2 \<and> ?D3 \<and> ?E \<and> ?A \<and> ?N"
  then have d: ?D1 ?D2 ?D3 and e: ?E and a: ?A and n: ?N by blast+
  have 1: "\<forall>p \<in> set (edges net). fst p = edgeId (from_e (snd p)) (to_e (snd p)) \<and>
      linked net (from_e (snd p)) (to_e (snd p)) \<and> linked net (to_e (snd p)) (from_e (snd p))"
  proof
    fix p assume "p \<in> set (edges net)"
    with d(2) have "Map_get (edges net) (fst p) = Some (snd p)" by simp
    with e show "fst p = edgeId (from_e (snd p)) (to_e (snd p)) \<and>
      linked net (from_e (snd p)) (to_e (snd p)) \<and> linked net (to_e (snd p)) (from_e (snd p))"
      by blast
  qed
  have 2: "\<forall>p \<in> set (adjList net). \<forall>y \<in> set (snd p). linked net y (fst p)"
  proof (intro ballI)
    fix p y assume "p \<in> set (adjList net)" "y \<in> set (snd p)"
    with d(3) have "Map_get (adjList net) (fst p) = Some (snd p)" by simp
    with a \<open>y \<in> set (snd p)\<close> show "linked net y (fst p)" by blast
  qed
  have 3: "\<forall>p \<in> set (nodes net). \<forall>y \<in> set (connections (snd p)). linked net y (fst p)"
  proof (intro ballI)
    fix p y assume "p \<in> set (nodes net)" "y \<in> set (connections (snd p))"
    with d(1) have "Map_get (nodes net) (fst p) = Some (snd p)" by simp
    with n \<open>y \<in> set (connections (snd p))\<close> show "linked net y (fst p)" by blast
  qed
  from d 1 2 3 show ?L
    unfolding consistent_def list_all_iff by (simp add: split_beta)
qed

lemma consistent_new: "consistent (new_RoadNetwork :: 'c RoadNetwork)"
  by (simp add: consistent_def new_RoadNetwork_def)


lemma linked_iff:
  "linked net y k \<longleftrightarrow> (\<exists>n. Map_get (nodes net) y = Some n \<and> k \<in> set (connections n))"
  by (simp add: linked_def split: option.split)







lemma set_Set_add: "set (Set_add y s) = insert y (set s)"
  by (auto simp add: Set_add_def)

lemma adj_add_get:
  "Map_get (adj_add m k y) k' =
     (if k' = k then map_option (Set_add y) (Map_get m k) else Map_get m k')"
  by (simp add: adj_add_def update_conv' split: option.split)

lemma conn_add_get:
  "Map_get (conn_add m k y) k' =
     (if k' = k then map_option (\<lambda>n. n\<lparr>connections := Set_add y (connections n)\<rparr>) (Map_get m k)
      else Map_get m k')"
  by (simp add: conn_add_def update_conv' split: option.split)

lemma adj_add_distinct: "distinct (map fst m) \<Longrightarrow> distinct (map fst (adj_add m k y))"
  by (simp add: adj_add_def distinct_update split: option.split)

lemma conn_add_distinct: "distinct (map fst m) \<Longrightarrow> distinct (map fst (conn_add m k y))"
  by (simp add: conn_add_def distinct_update split: option.split)

lemma addEdge_Done_fields:
  assumes "addEdge net a b len = Done net'"
  shows "edges net' = Map_set (edgeId a b) (new_RoadEdge a b len) (edges net)"
    and "nodes net' = conn_add (conn_add (nodes net) a b) b a"
    and "adjList net' = adj_add (adj_add (adjList net) a b) b a"
    and "Map_get (nodes net) a \<noteq> None" and "Map_get (nodes net) b \<noteq> None"
proof -
  from assms obtain nf where nf: "Map_get (nodes net) a = Some nf"
    by (auto simp add: addEdge_def Let_def split: option.splits)
  let ?n1 = "Map_set a (nf\<lparr>connections := Set_add b (connections nf)\<rparr>) (nodes net)"
  from assms nf obtain nt where nt: "Map_get ?n1 b = Some nt"
    by (auto simp add: addEdge_def Let_def split: option.splits)
  let ?n2 = "Map_set b (nt\<lparr>connections := Set_add a (connections nt)\<rparr>) ?n1"
  from assms nf nt obtain af where af: "Map_get (adjList net) a = Some af"
    by (auto simp add: addEdge_def Let_def split: option.splits)
  let ?a1 = "Map_set a (Set_add b af) (adjList net)"
  from assms nf nt af obtain ato where ato: "Map_get ?a1 b = Some ato"
    by (auto simp add: addEdge_def Let_def split: option.splits)
  from assms nf nt af ato
  have net': "net' = net\<lparr>edges := Map_set (edgeId a b) (new_RoadEdge a b len) (edges net),
      nodes := ?n2, adjList := Map_set b (Set_add a ato) ?a1\<rparr>"
    by (simp add: addEdge_def Let_def)
  show "edges net' = Map_set (edgeId a b) (new_RoadEdge a b len) (edges net)"
    by (simp add: net')
  from nf have c1: "conn_add (nodes net) a b = ?n1" by (simp add: conn_add_def)
  from nt show "nodes net' = conn_add (conn_add (nodes net) a b) b a"
    by (simp add: net' c1) (simp add: conn_add_def)
  from af have a1: "adj_add (adjList net) a b = ?a1" by (simp add: adj_add_def)
  from ato show "adjList net' = adj_add (adj_add (adjList net) a b) b a"
    by (simp add: net' a1) (simp add: adj_add_def)
  from nf show "Map_get (nodes net) a \<noteq> None" by simp
  from nt show "Map_get (nodes net) b \<noteq> None"
    by (cases "b = a") (simp_all add: nf update_conv')
qed


lemma addEdge_nodes_grow:
  assumes "addEdge net a b len = Done net'" "Map_get (nodes net) y = Some n"
  shows "\<exists>n'. Map_get (nodes net') y = Some n' \<and>
              set (connections n') =
                set (connections n) \<union> (if y = a then {b} else {}) \<union> (if y = b then {a} else {})"
proof -
  from assms(2)
  have "\<exists>n1. Map_get (conn_add (nodes net) a b) y = Some n1 \<and>
             set (connections n1) = set (connections n) \<union> (if y = a then {b} else {})"
    by (auto simp add: conn_add_get set_Set_add)
  then obtain n1 where "Map_get (conn_add (nodes net) a b) y = Some n1"
    "set (connections n1) = set (connections n) \<union> (if y = a then {b} else {})" by blast
  then show ?thesis
    by (auto simp add: addEdge_Done_fields(2) [OF assms(1)] conn_add_get set_Set_add)
qed

lemma addEdge_nodes_old:
  assumes "addEdge net a b len = Done net'" "Map_get (nodes net') y = Some n'"
  shows "\<exists>n. Map_get (nodes net) y = Some n"
proof -
  from assms(2) have "\<exists>n1. Map_get (conn_add (nodes net) a b) y = Some n1"
    by (auto simp add: addEdge_Done_fields(2) [OF assms(1)] conn_add_get [of _ b a y]
        split: if_splits)
  then show ?thesis
    by (auto simp add: conn_add_get [of _ a b y] split: if_splits)
qed

lemma addEdge_adjList_old:
  assumes "addEdge net a b len = Done net'" "Map_get (adjList net') k = Some s'"
  shows "\<exists>s. Map_get (adjList net) k = Some s \<and>
             set s' = set s \<union> (if k = a then {b} else {}) \<union> (if k = b then {a} else {})"
proof -
  from assms(2) have "\<exists>s1. Map_get (adj_add (adjList net) a b) k = Some s1 \<and>
      set s' = set s1 \<union> (if k = b then {a} else {})"
    by (auto simp add: addEdge_Done_fields(3) [OF assms(1)] adj_add_get [of _ b a k] set_Set_add
        split: if_splits)
  then obtain s1 where s1: "Map_get (adj_add (adjList net) a b) k = Some s1"
    "set s' = set s1 \<union> (if k = b then {a} else {})" by blast
  from s1(1) have "\<exists>s. Map_get (adjList net) k = Some s \<and>
      set s1 = set s \<union> (if k = a then {b} else {})"
    by (auto simp add: adj_add_get [of _ a b k] set_Set_add split: if_splits)
  with s1(2) show ?thesis by auto
qed

lemma linked_addEdge:
  assumes "addEdge net a b len = Done net'"
  shows "linked net y k \<Longrightarrow> linked net' y k" and "linked net' a b" and "linked net' b a"
proof -
  show "linked net y k \<Longrightarrow> linked net' y k"
    unfolding linked_iff using addEdge_nodes_grow [OF assms, of y] by auto
  from addEdge_Done_fields(4) [OF assms] obtain nf where "Map_get (nodes net) a = Some nf" by auto
  from addEdge_nodes_grow [OF assms this] show "linked net' a b"
    unfolding linked_iff by auto
  from addEdge_Done_fields(5) [OF assms] obtain nt where "Map_get (nodes net) b = Some nt" by auto
  from addEdge_nodes_grow [OF assms this] show "linked net' b a"
    unfolding linked_iff by auto
qed

lemma addEdge_consistent:
  assumes "consistent net" "addEdge net a b len = Done net'"
  shows "consistent net'"
proof -
  note f = addEdge_Done_fields [OF assms(2)]
  note l = linked_addEdge [OF assms(2)]
  from assms(1) have d: "distinct (map fst (nodes net))" "distinct (map fst (edges net))"
    "distinct (map fst (adjList net))" by (simp_all add: consistent_def)
  have d': "distinct (map fst (nodes net'))" "distinct (map fst (edges net'))"
    "distinct (map fst (adjList net'))"
    using d by (simp_all add: f(1,2,3) distinct_update conn_add_distinct adj_add_distinct)
  have e: "k = edgeId (from_e e) (to_e e) \<and> linked net' (from_e e) (to_e e) \<and>
           linked net' (to_e e) (from_e e)"
    if "Map_get (edges net') k = Some e" for k e
  proof (cases "k = edgeId a b")
    case True
    with that have "e = new_RoadEdge a b len" by (simp add: f(1) update_conv')
    with True l(2,3) show ?thesis by (simp add: new_RoadEdge_def)
  next
    case False
    with that have "Map_get (edges net) k = Some e" by (simp add: f(1) update_conv')
    from consistent_edges [OF assms(1) this] l(1) show ?thesis by blast
  qed
  have a: "linked net' y k" if "Map_get (adjList net') k = Some s'" "y \<in> set s'" for k s' y
  proof -
    from addEdge_adjList_old [OF assms(2) that(1)] obtain s where
      s: "Map_get (adjList net) k = Some s"
      "set s' = set s \<union> (if k = a then {b} else {}) \<union> (if k = b then {a} else {})" by blast
    from s(2) that(2) consider "y \<in> set s" | "k = a" "y = b" | "k = b" "y = a"
      by (auto split: if_splits)
    then show ?thesis
    proof cases
      case 1
      from consistent_adjList [OF assms(1) s(1) this] l(1) show ?thesis by blast
    next
      case 2
      with l(3) show ?thesis by simp
    next
      case 3
      with l(2) show ?thesis by simp
    qed
  qed
  have n: "linked net' y k" if "Map_get (nodes net') k = Some n'" "y \<in> set (connections n')"
    for k n' y
  proof -
    from addEdge_nodes_old [OF assms(2) that(1)] obtain n0 where
      n0: "Map_get (nodes net) k = Some n0" by blast
    from addEdge_nodes_grow [OF assms(2) n0] that(1)
    have "set (connections n') =
        set (connections n0) \<union> (if k = a then {b} else {}) \<union> (if k = b then {a} else {})"
      by auto
    with that(2) consider "y \<in> set (connections n0)" | "k = a" "y = b" | "k = b" "y = a"
      by (auto split: if_splits)
    then show ?thesis
    proof cases
      case 1
      from consistent_nodes [OF assms(1) n0 this] l(1) show ?thesis by blast
    next
      case 2
      with l(3) show ?thesis by simp
    next
      case 3
      with l(2) show ?thesis by simp
    qed
  qed
  from d' e a n show ?thesis
    unfolding consistent_iff [of net'] by blast
qed

lemma addNode_consistent:
  assumes "consistent net"
    and fresh: "Map_get (nodes net) (''n_'' @ number_string (nextNodeId net)) = None"
  shows "consistent (snd (addNode net x y))"
proof -
  let ?i = "''n_'' @ number_string (nextNodeId net)"
  let ?net' = "snd (addNode net x y)"
  have f: "nodes ?net' = Map_set ?i (new_RoadNode ?i x y) (nodes net)"
    "adjList ?net' = Map_set ?i [] (adjList net)" "edges ?net' = edges net"
    by (simp_all add: addNode_def Let_def)
  from assms(1) have d: "distinct (map fst (nodes net))" "distinct (map fst (edges net))"
    "distinct (map fst (adjList net))" by (simp_all add: consistent_def)
  have l: "linked ?net' v k" if "linked net v k" for v k
  proof -
    from that fresh have "v \<noteq> ?i" by (auto simp add: linked_iff)
    with that show ?thesis by (simp add: linked_iff f(1) update_conv')
  qed
  have e: "k = edgeId (from_e e) (to_e e) \<and> linked ?net' (from_e e) (to_e e) \<and>
           linked ?net' (to_e e) (from_e e)"
    if "Map_get (edges ?net') k = Some e" for k e
    using consistent_edges [OF assms(1), of k e] that l by (simp add: f(3))
  have a: "linked ?net' v k" if "Map_get (adjList ?net') k = Some s'" "v \<in> set s'" for k s' v
  proof (cases "k = ?i")
    case True
    with that show ?thesis by (simp add: f(2) update_conv')
  next
    case False
    with that have "Map_get (adjList net) k = Some s'" by (simp add: f(2) update_conv')
    from consistent_adjList [OF assms(1) this that(2)] l show ?thesis by blast
  qed
  have n: "linked ?net' v k" if "Map_get (nodes ?net') k = Some n'" "v \<in> set (connections n')"
    for k n' v
  proof (cases "k = ?i")
    case True
    with that show ?thesis by (auto simp add: f(1) update_conv' new_RoadNode_def)
  next
    case False
    with that have "Map_get (nodes net) k = Some n'" by (simp add: f(1) update_conv')
    from consistent_nodes [OF assms(1) this that(2)] l show ?thesis by blast
  qed
  have "distinct (map fst (nodes ?net'))" "distinct (map fst (edges ?net'))"
    "distinct (map fst (adjList ?net'))"
    using d by (simp_all add: f distinct_update)
  with e a n show ?thesis
    unfolding consistent_iff [of ?net'] by blast
qed









text \<open>
  The invariant is needed. The snapshot without \<^verbatim>\<open>connections\<close> is imported into a state that
  is not consistent (the edge is in the adjacency sets and in no connection set); there
  \<open>removeNode\<close> finds no connection to walk, and the edge and the adjacency set of \<^verbatim>\<open>n_2\<close>
  still name \<^verbatim>\<open>n_1\<close> afterwards.
\<close>

lemma removeNode_needs_consistency:
  "\<not> consistent (state_of (importFromJSON new_RoadNetwork edges_only_snapshot)) \<and>
   removeNode (state_of (importFromJSON new_RoadNetwork edges_only_snapshot)) ''n_1'' =
     \<lparr>nodes = [(''n_2'', \<lparr>id_node = ''n_2'', lng = 1, lat = 0, connections = [],
                          isBoundary = False\<rparr>)],
      edges = [(''n_1-n_2'', \<lparr>from_e = ''n_1'', to_e = ''n_2'', length_e = Number 100,
                              time_e = Number (600000 / 8333)\<rparr>)],
      adjList = [(''n_2'', [''n_1''])], nextNodeId = Some 3\<rparr>"
  by (simp add: import_edges_only_snapshot removeNode_def consistent_def linked_def)

subsection \<open>Test roads\<close>

text \<open>A walk over the roads that ends without exception has added no point.\<close>

lemma forEach_visit_road_Done:
  "forEach (visit_road ipp orig m) pts roads = Done pts' \<Longrightarrow> pts' = pts"
  by (induction roads) (auto simp add: visit_road_def Let_def split: if_splits)

lemma enhance_never_adds:
  "enhanceWithTestRoads ipp cpp ar orig roads m = Inr r \<Longrightarrow>
   boundaryPoints_e r = Set_of (boundaryPoints orig)"
  by (auto simp add: enhanceWithTestRoads_def Let_def split: option.splits outcome.splits
      dest: forEach_visit_road_Done)

text \<open>
  C3: with the square as base result, a budget of ten minutes and one active test road that
  starts inside the square and ends outside, within the budget, \<open>enhanceWithTestRoads\<close>
  throws \<^verbatim>\<open>TypeError\<close> and returns no enhanced result, whatever builds the polygon and its
  area.
\<close>

theorem enhance_throws_on_outward_road:
  "enhanceWithTestRoads in_bounding_box createPolygonFromPoints calculatePolygonArea
     square_result (getActiveRoads [outward_road]) (Number 10) = Inl TypeError"
  by (simp add: enhanceWithTestRoads_def getActiveRoads_def outward_road_def new_TestRoad_def
      square_result_def visit_road_def isPointAccessible_def in_bounding_box_def js_le_def
      Let_def)

subsection \<open>Export and import\<close>

text \<open>
  C4: importing what \<open>exportToJSON\<close> wrote for the line of three nodes throws \<^verbatim>\<open>TypeError\<close> at
  the first node, whose \<^verbatim>\<open>connections\<close> were written as \<^verbatim>\<open>{}\<close>, and leaves the network
  empty.
\<close>

theorem export_import_throws:
  "importFromJSON line_network (exportToJSON line_network) =
     Thrown TypeError \<lparr>nodes = [], edges = [], adjList = [], nextNodeId = Some 1\<rparr>"
  by (simp add: importFromJSON_def exportToJSON_def line_network_eq node_to_json_def
      import_node_def)

text \<open>
  The same for every network with at least one node, imported into any network.
\<close>

lemma export_import_nonempty:
  "nodes net \<noteq> [] \<Longrightarrow>
   importFromJSON this (exportToJSON net) =
     Thrown TypeError (this\<lparr>nodes := [], edges := [], adjList := [], nextNodeId := Some 1\<rparr>)"
  by (cases "nodes net")
     (simp_all add: importFromJSON_def exportToJSON_def node_to_json_def import_node_def)

lemma import_node_Done:
  assumes "connections_j n \<noteq> NotIterable"
  shows "\<exists>s. import_node net n = Done s \<and>
             fst ` set (nodes s) = insert (id_j n) (fst ` set (nodes net)) \<and>
             fst ` set (adjList s) = insert (id_j n) (fst ` set (adjList net))"
  using assms
  by (cases "connections_j n") (simp_all add: import_node_def Let_def dom_update)

lemma forEach_import_node:
  "\<forall>n \<in> set ns. connections_j n \<noteq> NotIterable \<Longrightarrow>
   \<exists>s. forEach import_node net ns = Done s \<and>
       fst ` set (nodes s) = fst ` set (nodes net) \<union> id_j ` set ns \<and>
       fst ` set (adjList s) = fst ` set (adjList net) \<union> id_j ` set ns"
proof (induction ns arbitrary: net)
  case Nil
  then show ?case by simp
next
  case (Cons n ns)
  from Cons.prems import_node_Done [of n net]
  obtain s1 where s1: "import_node net n = Done s1"
    "fst ` set (nodes s1) = insert (id_j n) (fst ` set (nodes net))"
    "fst ` set (adjList s1) = insert (id_j n) (fst ` set (adjList net))"
    by auto
  from Cons.IH [of s1] Cons.prems
  obtain s where "forEach import_node s1 ns = Done s"
    "fst ` set (nodes s) = fst ` set (nodes s1) \<union> id_j ` set ns"
    "fst ` set (adjList s) = fst ` set (adjList s1) \<union> id_j ` set ns"
    by auto
  with s1 show ?case by auto
qed

lemma import_edge_cases:
  "(\<exists>s. import_edge net e = Thrown TypeError s \<and> nodes s = nodes net) \<or>
   (\<exists>s. import_edge net e = Done s \<and> nodes s = nodes net \<and>
        fst ` set (adjList s) = fst ` set (adjList net) \<and>
        from_e e \<in> fst ` set (adjList net) \<and> to_e e \<in> fst ` set (adjList net))"
proof (cases "Map_get (adjList net) (from_e e)")
  case None
  then show ?thesis by (simp add: import_edge_def Let_def)
next
  case (Some af)
  then have f: "from_e e \<in> fst ` set (adjList net)"
    by (metis domI dom_map_of_conv_image_fst)
  show ?thesis
  proof (cases "Map_get (Map_set (from_e e) (Set_add (to_e e) af) (adjList net)) (to_e e)")
    case None
    with Some show ?thesis by (simp add: import_edge_def Let_def)
  next
    case (Some ato)
    have t: "to_e e \<in> fst ` set (adjList net)"
    proof (cases "to_e e = from_e e")
      case True
      with f show ?thesis by simp
    next
      case False
      with Some have "Map_get (adjList net) (to_e e) = Some ato" by (simp add: update_conv')
      then show ?thesis by (metis domI dom_map_of_conv_image_fst)
    qed
    from Some \<open>Map_get (adjList net) (from_e e) = Some af\<close> f t show ?thesis
      by (auto simp add: import_edge_def Let_def dom_update)
  qed
qed

lemma forEach_import_edge_unknown:
  "e \<in> set es \<Longrightarrow>
   from_e e \<notin> fst ` set (adjList net) \<or> to_e e \<notin> fst ` set (adjList net) \<Longrightarrow>
   \<exists>s. forEach import_edge net es = Thrown TypeError s \<and> nodes s = nodes net"
proof (induction es arbitrary: net)
  case Nil
  then show ?case by simp
next
  case (Cons e' es)
  from import_edge_cases [of net e'] show ?case
  proof (elim disjE exE conjE)
    fix s assume "import_edge net e' = Thrown TypeError s" "nodes s = nodes net"
    then show ?thesis by simp
  next
    fix s assume s: "import_edge net e' = Done s" "nodes s = nodes net"
      "fst ` set (adjList s) = fst ` set (adjList net)"
      "from_e e' \<in> fst ` set (adjList net)" "to_e e' \<in> fst ` set (adjList net)"
    with Cons.prems have "e \<in> set es" by auto
    from Cons.IH [OF this, of s] Cons.prems(2) s show ?thesis by simp
  qed
qed

lemma forEach_import_node_error:
  "forEach import_node net ns = Thrown err s \<Longrightarrow> err = TypeError"
  by (induction ns arbitrary: net)
     (auto simp add: import_node_def Let_def split: connections_json.splits outcome.splits)

lemma forEach_import_edge_error:
  "forEach import_edge net es = Thrown err s \<Longrightarrow> err = TypeError"
  by (induction es arbitrary: net)
     (auto simp add: import_edge_def Let_def split: option.splits outcome.splits)

lemma importFromJSON_error: "importFromJSON net data = Thrown err s \<Longrightarrow> err = TypeError"
  by (auto simp add: importFromJSON_def Let_def split: option.splits outcome.splits
      dest: forEach_import_node_error forEach_import_edge_error)

text \<open>
  C5 (as amended): when the nodes of a snapshot can all be read and one of its edges names an
  endpoint that is not the id of a listed node, the import throws \<^verbatim>\<open>TypeError\<close>, and the
  network it leaves holds the nodes of the snapshot in place of those loaded before. No
  import ends in \<open>FormatError\<close>.
\<close>

theorem import_unknown_endpoint:
  assumes "nodes_j data = Some ns" and "\<forall>n \<in> set ns. connections_j n \<noteq> NotIterable"
    and "edges_j data = Some es" and "e \<in> set es"
    and "from_e e \<notin> id_j ` set ns \<or> to_e e \<notin> id_j ` set ns"
  shows "(\<exists>s. importFromJSON net data = Thrown TypeError s \<and>
              fst ` set (nodes s) = id_j ` set ns) \<and>
         (\<forall>s. importFromJSON net data \<noteq> Thrown FormatError s)"
proof
  let ?net0 = "net\<lparr>nodes := [], edges := [], adjList := [], nextNodeId := Some 1\<rparr>"
  from forEach_import_node [OF assms(2), of ?net0]
  obtain s1 where s1: "forEach import_node ?net0 ns = Done s1"
    "fst ` set (nodes s1) = id_j ` set ns" "fst ` set (adjList s1) = id_j ` set ns"
    by auto
  from assms(5) s1(3)
  have "from_e e \<notin> fst ` set (adjList s1) \<or> to_e e \<notin> fst ` set (adjList s1)" by simp
  from forEach_import_edge_unknown [OF assms(4) this]
  obtain s where "forEach import_edge s1 es = Thrown TypeError s" "nodes s = nodes s1" by blast
  with s1 assms(1,3)
  show "\<exists>s. importFromJSON net data = Thrown TypeError s \<and> fst ` set (nodes s) = id_j ` set ns"
    by (simp add: importFromJSON_def Let_def)
next
  show "\<forall>s. importFromJSON net data \<noteq> Thrown FormatError s"
    using importFromJSON_error [of net data FormatError] by auto
qed

text \<open>
  C5 as stated fails: importing the snapshot with the dangling edge into the line of three
  nodes throws \<^verbatim>\<open>TypeError\<close> and leaves a network that holds the node and the edge of the
  snapshot; importing the snapshot with words for coordinates succeeds.
\<close>

theorem import_malformed_counterexample:
  "importFromJSON line_network dangling_snapshot =
     Thrown TypeError
       \<lparr>nodes = [(''n_4'', \<lparr>id_node = ''n_4'', lng = 0, lat = 0, connections = [],
                            isBoundary = False\<rparr>)],
        edges = [(''n_4-n_7'', \<lparr>from_e = ''n_4'', to_e = ''n_7'', length_e = Number 100,
                                time_e = Number (600000 / 8333)\<rparr>)],
        adjList = [(''n_4'', [''n_7''])], nextNodeId = Some 5\<rparr> \<and>
   importFromJSON new_RoadNetwork text_snapshot =
     Done \<lparr>nodes = [(''n_1'', \<lparr>id_node = ''n_1'', lng = ''east'', lat = ''north'',
                               connections = [], isBoundary = False\<rparr>)],
           edges = [], adjList = [(''n_1'', [])], nextNodeId = Some 2\<rparr>"
  by (simp add: importFromJSON_def dangling_snapshot_def text_snapshot_def line_network_eq
      new_RoadNetwork_def import_node_def import_edge_def new_RoadNode_def new_RoadEdge_def
      walk_time_def edgeId_def Set_add_def math_max_def incr_def parseInt_def split_1_def
      is_space_def is_digit_def digit_value_def digits_value_def Let_def)

text \<open>
  The statement at the snapshot with the dangling edge, imported into the network of two
  nodes.
\<close>

theorem import_unknown_endpoint_witness:
  "nodes_j dangling_snapshot = Some [\<lparr>id_j = ''n_4'', lng_j = 0, lat_j = 0,
          connections_j = NoConnections, isBoundary_j = None\<rparr>] \<and>
   edges_j dangling_snapshot = Some [new_RoadEdge ''n_4'' ''n_7'' (Number 100)] \<and>
   (\<exists>s. importFromJSON two_node_network dangling_snapshot = Thrown TypeError s \<and>
        fst ` set (nodes s) = {''n_4''}) \<and>
   (\<forall>s. importFromJSON two_node_network dangling_snapshot \<noteq> Thrown FormatError s)"
proof -
  have h1: "nodes_j dangling_snapshot = Some [\<lparr>id_j = ''n_4'', lng_j = 0, lat_j = 0,
          connections_j = NoConnections, isBoundary_j = None\<rparr>]"
    by (simp add: dangling_snapshot_def)
  have h2: "\<forall>n \<in> set [\<lparr>id_j = ''n_4'', lng_j = 0::real, lat_j = 0,
          connections_j = NoConnections, isBoundary_j = None\<rparr>]. connections_j n \<noteq> NotIterable"
    by simp
  have h3: "edges_j dangling_snapshot = Some [new_RoadEdge ''n_4'' ''n_7'' (Number 100)]"
    by (simp add: dangling_snapshot_def)
  have h4: "new_RoadEdge ''n_4'' ''n_7'' (Number 100) \<in> set [new_RoadEdge ''n_4'' ''n_7'' (Number 100)]"
    by simp
  have h5: "from_e (new_RoadEdge ''n_4'' ''n_7'' (Number 100)) \<notin> id_j ` set [\<lparr>id_j = ''n_4'', lng_j = 0::real, lat_j = 0,
          connections_j = NoConnections, isBoundary_j = None\<rparr>] \<or>
        to_e (new_RoadEdge ''n_4'' ''n_7'' (Number 100)) \<notin> id_j ` set [\<lparr>id_j = ''n_4'', lng_j = 0::real, lat_j = 0,
          connections_j = NoConnections, isBoundary_j = None\<rparr>]"
    by (simp add: new_RoadEdge_def)
  from import_unknown_endpoint [OF h1 h2 h3 h4 h5, of two_node_network] h1 h3
  show ?thesis by simp
qed

end
